theory Spec2Isabelle
  imports Main
begin

section \<open>Values crossing the JavaScript boundary\<close>

text \<open>
  The page script \<^verbatim>\<open>static/js/script.js\<close> keeps three variables
  (\<^verbatim>\<open>currentFilename\<close>, \<^verbatim>\<open>currentCleanedFilename\<close>, \<^verbatim>\<open>columns\<close>) and a handful of DOM
  elements, and reacts to four kinds of event. A property of a JSON object that is
  absent reads as \<^verbatim>\<open>undefined\<close>; it is \<open>None\<close> here. An exception is a value.
  The text an engine gives to its own \<^verbatim>\<open>TypeError\<close>s differs between browsers; the
  texts below are V8's and no statement depends on them.
\<close>

datatype js_error = Error string | TypeError string

fun message :: "js_error \<Rightarrow> string" where
  "message (Error m) = m"
| "message (TypeError m) = m"

text \<open>\<^verbatim>\<open>if (data.error)\<close>: \<^verbatim>\<open>undefined\<close> and the empty string are falsy.\<close>

definition truthy :: "string option \<Rightarrow> bool" where
  "truthy v = (case v of None \<Rightarrow> False | Some s \<Rightarrow> s \<noteq> [])"

text \<open>\<^verbatim>\<open>${v}\<close> inside a template literal.\<close>

definition str :: "string option \<Rightarrow> string" where
  "str v = (case v of None \<Rightarrow> ''undefined'' | Some s \<Rightarrow> s)"

definition cannot_read :: "string \<Rightarrow> js_error" where
  "cannot_read p = TypeError (''Cannot read properties of undefined (reading '' @ p @ '')'')"

text \<open>The \<^verbatim>\<open>columns\<close> structure of an upload response: \<^verbatim>\<open>{all, numeric, categorical}\<close>.\<close>

record ColumnTyping =
  all :: "string list option"
  numeric :: "string list option"
  categorical :: "string list option"

text \<open>\<^verbatim>\<open>let columns = {};\<close>\<close>

definition empty_object :: ColumnTyping where
  "empty_object = \<lparr>all = None, numeric = None, categorical = None\<rparr>"

text \<open>
  What \<^verbatim>\<open>await fetch(...)\<close> followed by \<^verbatim>\<open>await response.json()\<close> can give: the
  fetch rejects, or there is a response whose body parses or does not.
\<close>

datatype 'a body = JsonRejected js_error | Json 'a

datatype 'a fetched =
  FetchRejected js_error
| Response (ok: bool) (status: string) (statusText: string) (json: "'a body")

record insights_t =
  description :: "string option"
  info :: "string option"

record upload_data =
  u_error :: "string option"
  u_filename :: "string option"
  u_preview :: "string option"
  u_insights :: "insights_t option"
  u_columns :: "ColumnTyping option"

record preprocess_data =
  p_error :: "string option"
  p_cleaned_filename :: "string option"
  p_log :: "string list option"
  p_preview :: "string option"

record analyze_data =
  a_error :: "string option"
  a_image :: "string option"
  a_stats :: "(string \<times> string) list option"

section \<open>The document\<close>

text \<open>
  The script writes markup into \<^verbatim>\<open>innerHTML\<close> with its texts interpolated raw, and the
  browser parses what was written. Two kinds of container are kept apart.

  \<^item> The log, the plot and the statistics are only written. Their state is the string
    assigned to \<^verbatim>\<open>innerHTML\<close>, character for character.
  \<^item> The selects and checkboxes are read back by the script (\<^verbatim>\<open>dataset.column\<close>,
    \<^verbatim>\<open>value\<close>, \<^verbatim>\<open>:checked\<close>). Their state is the elements the parser builds, with
    the attributes as it reads them.

  A \<^verbatim>\<open>select\<close> shows its first option after its options are replaced, and its
  \<^verbatim>\<open>value\<close> is the value of the option shown (the empty string when it has none).
  The elements that the markup of previews, descriptions, log entries, statistics and
  messages may itself create are not modelled: the selects and checkboxes below are
  those of the three tool containers and the two selects of the analysis panel.
\<close>

datatype display = DisplayNone | Block | Grid

type_synonym option_el = "string \<times> string"

record select_el =
  options :: "option_el list"
  selectedIndex :: nat

definition select_value :: "select_el \<Rightarrow> string" where
  "select_value s =
     (if selectedIndex s < length (options s) then fst (options s ! selectedIndex s) else [])"

definition with_options :: "option_el list \<Rightarrow> select_el" where
  "with_options os = \<lparr>options = os, selectedIndex = 0\<rparr>"

text \<open>
  One \<^verbatim>\<open>div.option-group\<close> of \<^verbatim>\<open>#missing-values-options\<close>: a label and a
  \<^verbatim>\<open>select.missing-value-select\<close> with its \<^verbatim>\<open>data-column\<close>.
\<close>

record option_group =
  og_label :: string
  og_column :: string
  og_select :: select_el

text \<open>One \<^verbatim>\<open>div.checkbox-group\<close>: a checkbox with id and \<^verbatim>\<open>data-column\<close>, and its label.\<close>

record checkbox_group =
  cb_id :: string
  cb_column :: string
  cb_label :: string
  cb_checked :: bool

subsection \<open>A column name inside an attribute and inside a text\<close>

text \<open>
  In \<^verbatim>\<open>data-column="${col}"\<close> the tokenizer takes as the value what stands before the
  first double quote of the name.
\<close>

definition attribute_text :: "string \<Rightarrow> string" where
  "attribute_text col = takeWhile (\<lambda>c. c \<noteq> CHR 0x22) col"

text \<open>
  That alone describes the element when the rest of the name does no more than add an
  attribute of a meaningless name, and when the name stands for itself as the text of a
  \<^verbatim>\<open>label\<close> or an \<^verbatim>\<open>option\<close>: no \<^verbatim>\<open><\<close> and no \<^verbatim>\<open>&\<close> anywhere (a tag or a character
  reference would start), no NUL and no carriage return (the parser replaces them), and
  from the first double quote on no white space, \<^verbatim>\<open>/\<close>, \<^verbatim>\<open>=\<close> or \<^verbatim>\<open>>\<close> (a further attribute
  could get a value, or the tag could end early).
\<close>

definition reads_back :: "string \<Rightarrow> bool" where
  "reads_back col =
     (list_all (\<lambda>c. c \<noteq> CHR ''<'' \<and> c \<noteq> CHR ''&'' \<and> c \<noteq> CHR 0x00 \<and> c \<noteq> CHR 0x0D) col \<and>
      list_all (\<lambda>c. c \<noteq> CHR '' '' \<and> c \<noteq> CHR 0x09 \<and> c \<noteq> CHR 0x0A \<and> c \<noteq> CHR 0x0C \<and>
                    c \<noteq> CHR ''/'' \<and> c \<noteq> CHR ''='' \<and> c \<noteq> CHR ''>'')
        (dropWhile (\<lambda>c. c \<noteq> CHR 0x22) col))"

text \<open>
  The state carries a flag \<open>tracked\<close>: the selects and checkboxes of the state are those
  of the page. It falls, for the rest of the run, when a column name outside
  \<open>reads_back\<close> is written into markup that the script reads back; from then on the
  element fields say nothing about the page.
\<close>

record ui_state =
  currentFilename :: "string option"
  currentCleanedFilename :: "string option"
  columns :: "ColumnTyping option"
  loader :: display
  mainContent :: display
  uploadError :: string
  columnSelect :: select_el
  plotTypeSelect :: select_el
  downloadContainer :: display
  downloadLink :: string
  preprocessLoader :: display
  logContainer :: string
  filenameDisplay :: "string option"
  dataPreview :: "string option"
  dataDescription :: "string option"
  dataInfo :: "string option"
  missingContainer :: "option_group list"
  outlierContainer :: "checkbox_group list"
  normalizeContainer :: "checkbox_group list"
  analysisLoader :: display
  resultsContainer :: display
  plotResult :: string
  statsResult :: string
  tracked :: bool

text \<open>\<^verbatim>\<open>element.style.display = show ? 'block' : 'none'\<close>\<close>

definition showLoader :: "bool \<Rightarrow> display" where
  "showLoader show = (if show then Block else DisplayNone)"

section \<open>UI helper functions\<close>

text \<open>
  A function that may throw returns the exception, if any, beside the state reached
  when it was thrown.
\<close>

type_synonym 'a outcome = "js_error option \<times> 'a"

definition missing_value_options :: "bool \<Rightarrow> option_el list" where
  "missing_value_options isNumeric =
     [(''none'', ''None'')]
     @ (if isNumeric then [(''mean'', ''Fill with Mean''), (''median'', ''Fill with Median'')] else [])
     @ [(''mode'', ''Fill with Mode''), (''remove'', ''Remove Row'')]"

definition missing_group :: "string \<Rightarrow> bool \<Rightarrow> option_group" where
  "missing_group col isNumeric =
     \<lparr>og_label = col, og_column = attribute_text col,
      og_select = with_options (missing_value_options isNumeric)\<rparr>"

definition outlier_group :: "string \<Rightarrow> checkbox_group" where
  "outlier_group col =
     \<lparr>cb_id = ''outlier-'' @ attribute_text col, cb_column = attribute_text col, cb_label = col,
      cb_checked = False\<rparr>"

definition normalize_group :: "string \<Rightarrow> checkbox_group" where
  "normalize_group col =
     \<lparr>cb_id = ''norm-'' @ attribute_text col, cb_column = attribute_text col, cb_label = col,
      cb_checked = False\<rparr>"

text \<open>
  The body of \<^verbatim>\<open>cols.all.forEach(col => ...)\<close>, one column after the other. The
  templates put \<^verbatim>\<open>col\<close> into the attributes \<^verbatim>\<open>data-column\<close>, \<^verbatim>\<open>id\<close> and \<^verbatim>\<open>for\<close> and
  into the text of the labels; the groups below hold what the parser reads there, and
  \<open>tracked\<close> keeps whether every name so far was one that reads back this way.
\<close>

fun forEach_col :: "ColumnTyping \<Rightarrow> string list \<Rightarrow> ui_state \<Rightarrow> ui_state outcome" where
  "forEach_col cols [] s = (None, s)"
| "forEach_col cols (col # rest) s =
     (case numeric cols of
        None \<Rightarrow> (Some (cannot_read ''includes''), s)
      | Some nums \<Rightarrow>
          let isNumeric = (col \<in> set nums);
              s1 = s\<lparr>missingContainer := missingContainer s @ [missing_group col isNumeric],
                     tracked := (tracked s \<and> reads_back col)\<rparr>;
              s2 = (if isNumeric
                    then s1\<lparr>outlierContainer := outlierContainer s1 @ [outlier_group col],
                            normalizeContainer := normalizeContainer s1 @ [normalize_group col]\<rparr>
                    else s1)
          in forEach_col cols rest s2)"

definition populatePreprocessingTools :: "ColumnTyping option \<Rightarrow> ui_state \<Rightarrow> ui_state outcome" where
  "populatePreprocessingTools cols s =
     (let s1 = s\<lparr>missingContainer := [], outlierContainer := [], normalizeContainer := []\<rparr>
      in case cols of
           None \<Rightarrow> (Some (cannot_read ''all''), s1)
         | Some c \<Rightarrow>
             (case all c of
                None \<Rightarrow> (Some (cannot_read ''forEach''), s1)
              | Some cs \<Rightarrow> forEach_col c cs s1))"

definition updatePlotOptions :: "string \<Rightarrow> ui_state \<Rightarrow> ui_state outcome" where
  "updatePlotOptions selectedColumn s =
     (case columns s of
        None \<Rightarrow> (Some (cannot_read ''numeric''), s)
      | Some c \<Rightarrow>
          (case numeric c of
             None \<Rightarrow> (Some (cannot_read ''includes''), s)
           | Some nums \<Rightarrow>
               (None, s\<lparr>plotTypeSelect := with_options
                  (if selectedColumn \<in> set nums
                   then [(''histogram'', ''Histogram''), (''boxplot'', ''Box Plot'')]
                   else [(''count'', ''Count Plot'')])\<rparr>)))"

definition displayInitialData :: "upload_data \<Rightarrow> ui_state \<Rightarrow> ui_state outcome" where
  "displayInitialData data s =
     (let s1 = s\<lparr>filenameDisplay := u_filename data, dataPreview := u_preview data\<rparr>
      in case u_insights data of
           None \<Rightarrow> (Some (cannot_read ''description''), s1)
         | Some ins \<Rightarrow>
             let s2 = s1\<lparr>dataDescription := description ins, dataInfo := info ins\<rparr>
             in (case populatePreprocessingTools (columns s2) s2 of
                   (Some e, s3) \<Rightarrow> (Some e, s3)
                 | (None, s3) \<Rightarrow>
                     (case columns s3 of
                        None \<Rightarrow> (Some (cannot_read ''all''), s3)
                      | Some c \<Rightarrow>
                          (case all c of
                             None \<Rightarrow> (Some (cannot_read ''map''), s3)
                           | Some cs \<Rightarrow>
                               let s4 = s3\<lparr>columnSelect :=
                                           with_options (map (\<lambda>col. (attribute_text col, col)) cs),
                                         tracked := (tracked s3 \<and> list_all reads_back cs)\<rparr>
                               in updatePlotOptions (select_value (columnSelect s4)) s4))))"

section \<open>Event listeners\<close>

text \<open>
  Each of the three asynchronous listeners runs up to its \<^verbatim>\<open>fetch\<close>, sends a request
  and suspends; it resumes when the request settles. Between the two, other listeners
  may run. A listener is therefore modelled in two parts, the second taking what the
  request settled to.
\<close>

subsection \<open>The markup the listeners write\<close>

definition log_entry :: "string \<Rightarrow> string" where
  \<open>log_entry item = ''<div>'' @ item @ ''</div>''\<close>

definition preprocessing_failed :: "string \<Rightarrow> string" where
  \<open>preprocessing_failed m = ''<div class="error-message">Preprocessing failed: '' @ m @ ''</div>''\<close>

definition analysis_plot :: "string \<Rightarrow> string" where
  \<open>analysis_plot base64 = ''<img src="data:image/png;base64,'' @ base64 @ ''" alt="Analysis Plot">''\<close>

definition stats_heading :: "string \<Rightarrow> string" where
  \<open>stats_heading column = ''<h4>Statistics for '' @ column @ ''</h4>''\<close>

definition stat_item :: "string \<times> string \<Rightarrow> string" where
  \<open>stat_item entry =
     ''<div class="stat-item"><span>'' @ fst entry @ ''</span><span>'' @ snd entry @ ''</span></div>''\<close>

definition analysis_failed :: string where
  \<open>analysis_failed = ''<div class="error-message">Analysis Failed</div>''\<close>

subsection \<open>Requests\<close>

record PreprocessingAction =
  missing_values :: "string \<rightharpoonup> string"
  outliers :: "string list"
  normalize :: "string list"

datatype request =
  UploadRequest string
| PreprocessRequest "string option" PreprocessingAction
| AnalyzeRequest "string option" string string

subsection \<open>1. File upload\<close>

definition upload_submit :: "string \<Rightarrow> ui_state \<Rightarrow> ui_state \<times> request" where
  "upload_submit formData s =
     (s\<lparr>loader := showLoader True, mainContent := DisplayNone, uploadError := [],
        downloadContainer := DisplayNone\<rparr>,
      UploadRequest formData)"

definition upload_try :: "upload_data fetched \<Rightarrow> ui_state \<Rightarrow> ui_state outcome" where
  "upload_try r s =
     (case r of
        FetchRejected e \<Rightarrow> (Some e, s)
      | Response okay st stText b \<Rightarrow>
          if \<not> okay then (Some (Error (''Server error: '' @ stText)), s)
          else (case b of
                  JsonRejected e \<Rightarrow> (Some e, s)
                | Json data \<Rightarrow>
                    if truthy (u_error data) then (Some (Error (str (u_error data))), s)
                    else
                      let s1 = s\<lparr>currentFilename := u_filename data,
                                 currentCleanedFilename := u_filename data,
                                 columns := u_columns data\<rparr>
                      in (case displayInitialData data s1 of
                            (Some e, s2) \<Rightarrow> (Some e, s2)
                          | (None, s2) \<Rightarrow> (None, s2\<lparr>mainContent := Block\<rparr>))))"

definition upload_settled :: "upload_data fetched \<Rightarrow> ui_state \<Rightarrow> ui_state" where
  "upload_settled r s =
     (let s1 = (case upload_try r s of
                  (Some e, s') \<Rightarrow> s'\<lparr>uploadError := ''Upload failed: '' @ message e\<rparr>
                | (None, s') \<Rightarrow> s')
      in s1\<lparr>loader := showLoader False\<rparr>)"

subsection \<open>2. Preprocessing\<close>

text \<open>
  \<^verbatim>\<open>querySelectorAll\<close> visits the elements in document order; the property
  assignment \<^verbatim>\<open>actions.missing_values[c] = v\<close> overwrites an earlier entry for \<^verbatim>\<open>c\<close>.
  On the plain object \<^verbatim>\<open>{}\<close> the key \<^verbatim>\<open>__proto__\<close> is the prototype accessor:
  assigning a string to it is ignored and creates no property.
\<close>

definition assign_property :: "(string \<rightharpoonup> string) \<Rightarrow> string \<Rightarrow> string \<Rightarrow> (string \<rightharpoonup> string)" where
  "assign_property obj key v = (if key = ''__proto__'' then obj else obj(key \<mapsto> v))"

definition collect_missing_values :: "option_group list \<Rightarrow> (string \<rightharpoonup> string)" where
  "collect_missing_values gs =
     foldl (\<lambda>m g. if select_value (og_select g) \<noteq> ''none''
                   then assign_property m (og_column g) (select_value (og_select g)) else m)
           Map.empty gs"

definition collect_checked :: "checkbox_group list \<Rightarrow> string list" where
  "collect_checked cs = map cb_column (filter cb_checked cs)"

definition collect_actions :: "ui_state \<Rightarrow> PreprocessingAction" where
  "collect_actions s =
     \<lparr>missing_values = collect_missing_values (missingContainer s),
      outliers = collect_checked (outlierContainer s),
      normalize = collect_checked (normalizeContainer s)\<rparr>"

definition preprocess_click :: "ui_state \<Rightarrow> ui_state \<times> request" where
  "preprocess_click s =
     (let s1 = s\<lparr>preprocessLoader := showLoader True, logContainer := [],
                 downloadContainer := DisplayNone\<rparr>
      in (s1, PreprocessRequest (currentFilename s1) (collect_actions s1)))"

definition preprocess_try :: "preprocess_data fetched \<Rightarrow> ui_state \<Rightarrow> ui_state outcome" where
  "preprocess_try r s =
     (case r of
        FetchRejected e \<Rightarrow> (Some e, s)
      | Response okay st stText b \<Rightarrow>
          (case b of
             JsonRejected e \<Rightarrow> (Some e, s)
           | Json data \<Rightarrow>
               if truthy (p_error data) then (Some (Error (str (p_error data))), s)
               else
                 let s1 = s\<lparr>currentCleanedFilename := p_cleaned_filename data\<rparr>
                 in (case p_log data of
                       None \<Rightarrow> (Some (cannot_read ''map''), s1)
                     | Some items \<Rightarrow>
                         (None, s1\<lparr>logContainer := concat (map log_entry items),
                                   dataPreview := p_preview data,
                                   downloadLink := ''/download/'' @ str (p_cleaned_filename data),
                                   downloadContainer := Block\<rparr>))))"

definition preprocess_settled :: "preprocess_data fetched \<Rightarrow> ui_state \<Rightarrow> ui_state" where
  "preprocess_settled r s =
     (let s1 = (case preprocess_try r s of
                  (Some e, s') \<Rightarrow>
                    s'\<lparr>logContainer := preprocessing_failed (message e)\<rparr>
                | (None, s') \<Rightarrow> s')
      in s1\<lparr>preprocessLoader := showLoader False\<rparr>)"

subsection \<open>3. Analysis and visualisation\<close>

definition analyze_click :: "ui_state \<Rightarrow> ui_state \<times> request" where
  "analyze_click s =
     (let s1 = s\<lparr>analysisLoader := showLoader True, resultsContainer := DisplayNone,
                 plotResult := [], statsResult := []\<rparr>
      in (s1, AnalyzeRequest (currentCleanedFilename s1) (select_value (columnSelect s1))
                (select_value (plotTypeSelect s1))))"

definition analyze_try :: "analyze_data fetched \<Rightarrow> ui_state \<Rightarrow> ui_state outcome" where
  "analyze_try r s =
     (case r of
        FetchRejected e \<Rightarrow> (Some e, s)
      | Response okay st stText b \<Rightarrow>
          (case b of
             JsonRejected e \<Rightarrow> (Some e, s)
           | Json data \<Rightarrow>
               if \<not> okay
               then (Some (Error (if truthy (a_error data) then str (a_error data)
                                  else ''Server responded with status: '' @ st)), s)
               else
                 let s1 = s\<lparr>plotResult := analysis_plot (str (a_image data))\<rparr>
                 in (case a_stats data of
                       None \<Rightarrow> (Some (TypeError ''Cannot convert undefined or null to object''), s1)
                     | Some entries \<Rightarrow>
                         (None, s1\<lparr>statsResult :=
                                     stats_heading (select_value (columnSelect s1))
                                     @ concat (map stat_item entries),
                                   resultsContainer := Grid\<rparr>))))"

definition analyze_settled :: "analyze_data fetched \<Rightarrow> ui_state \<Rightarrow> ui_state" where
  "analyze_settled r s =
     (let s1 = (case analyze_try r s of
                  (Some e, s') \<Rightarrow>
                    s'\<lparr>resultsContainer := Grid,
                       plotResult := analysis_failed,
                       statsResult := stat_item (''Error'', message e)\<rparr>
                | (None, s') \<Rightarrow> s')
      in s1\<lparr>analysisLoader := showLoader False\<rparr>)"

subsection \<open>4. Change of the selected column\<close>

text \<open>An exception escaping this listener is reported by the browser; the state stays as it was when thrown.\<close>

definition column_change :: "ui_state \<Rightarrow> ui_state" where
  "column_change s = snd (updatePlotOptions (select_value (columnSelect s)) s)"

section \<open>What the user does with the controls\<close>

text \<open>
  Picking an option of a \<^verbatim>\<open>select\<close> can only pick one it has; picking another
  column fires the change listener.
\<close>

definition pick :: "nat \<Rightarrow> select_el \<Rightarrow> select_el" where
  "pick i sel = (if i < length (options sel) then sel\<lparr>selectedIndex := i\<rparr> else sel)"

definition choose_column :: "nat \<Rightarrow> ui_state \<Rightarrow> ui_state" where
  "choose_column i s =
     (if i < length (options (columnSelect s)) \<and> i \<noteq> selectedIndex (columnSelect s)
      then column_change (s\<lparr>columnSelect := pick i (columnSelect s)\<rparr>)
      else s)"

definition choose_plot_type :: "nat \<Rightarrow> ui_state \<Rightarrow> ui_state" where
  "choose_plot_type i s = s\<lparr>plotTypeSelect := pick i (plotTypeSelect s)\<rparr>"

definition choose_missing_value :: "nat \<Rightarrow> nat \<Rightarrow> ui_state \<Rightarrow> ui_state" where
  "choose_missing_value k i s =
     (if k < length (missingContainer s)
      then s\<lparr>missingContainer := (missingContainer s)
             [k := (missingContainer s ! k)\<lparr>og_select := pick i (og_select (missingContainer s ! k))\<rparr>]\<rparr>
      else s)"

definition toggle :: "nat \<Rightarrow> checkbox_group list \<Rightarrow> checkbox_group list" where
  "toggle k cs = (if k < length cs then cs[k := (cs ! k)\<lparr>cb_checked := \<not> cb_checked (cs ! k)\<rparr>] else cs)"

section \<open>The page as a transition system\<close>

text \<open>
  The world is the page together with the requests it has sent and the number of
  requests of each kind still in flight. A settling event with nothing in flight
  cannot happen and leaves the world as it is.
\<close>

datatype event =
  Submit string
| UploadSettled "upload_data fetched"
| PreprocessClick
| PreprocessSettled "preprocess_data fetched"
| AnalyzeClick
| AnalyzeSettled "analyze_data fetched"
| ChooseColumn nat
| ChoosePlotType nat
| ChooseMissingValue nat nat
| ToggleOutlier nat
| ToggleNormalize nat

record world =
  ui :: ui_state
  sent :: "request list"
  uploadsInFlight :: nat
  preprocessInFlight :: nat
  analysesInFlight :: nat

fun step :: "event \<Rightarrow> world \<Rightarrow> world" where
  "step (Submit formData) w =
     w\<lparr>ui := fst (upload_submit formData (ui w)),
       sent := sent w @ [snd (upload_submit formData (ui w))],
       uploadsInFlight := Suc (uploadsInFlight w)\<rparr>"
| "step (UploadSettled r) w =
     (if uploadsInFlight w = 0 then w
      else w\<lparr>ui := upload_settled r (ui w), uploadsInFlight := uploadsInFlight w - 1\<rparr>)"
| "step PreprocessClick w =
     w\<lparr>ui := fst (preprocess_click (ui w)),
       sent := sent w @ [snd (preprocess_click (ui w))],
       preprocessInFlight := Suc (preprocessInFlight w)\<rparr>"
| "step (PreprocessSettled r) w =
     (if preprocessInFlight w = 0 then w
      else w\<lparr>ui := preprocess_settled r (ui w), preprocessInFlight := preprocessInFlight w - 1\<rparr>)"
| "step AnalyzeClick w =
     w\<lparr>ui := fst (analyze_click (ui w)),
       sent := sent w @ [snd (analyze_click (ui w))],
       analysesInFlight := Suc (analysesInFlight w)\<rparr>"
| "step (AnalyzeSettled r) w =
     (if analysesInFlight w = 0 then w
      else w\<lparr>ui := analyze_settled r (ui w), analysesInFlight := analysesInFlight w - 1\<rparr>)"
| "step (ChooseColumn i) w = w\<lparr>ui := choose_column i (ui w)\<rparr>"
| "step (ChoosePlotType i) w = w\<lparr>ui := choose_plot_type i (ui w)\<rparr>"
| "step (ChooseMissingValue k i) w = w\<lparr>ui := choose_missing_value k i (ui w)\<rparr>"
| "step (ToggleOutlier k) w =
     w\<lparr>ui := (ui w)\<lparr>outlierContainer := toggle k (outlierContainer (ui w))\<rparr>\<rparr>"
| "step (ToggleNormalize k) w =
     w\<lparr>ui := (ui w)\<lparr>normalizeContainer := toggle k (normalizeContainer (ui w))\<rparr>\<rparr>"

fun run :: "event list \<Rightarrow> world \<Rightarrow> world" where
  "run [] w = w"
| "run (e # es) w = run es (step e w)"

text \<open>
  \<^verbatim>\<open>DOMContentLoaded\<close>: the three variables get their initial values; the document
  is the page as served.
\<close>

definition loaded :: "ui_state \<Rightarrow> world" where
  "loaded page =
     \<lparr>ui = page\<lparr>currentFilename := None, currentCleanedFilename := None,
                 columns := Some empty_object\<rparr>,
      sent = [], uploadsInFlight = 0, preprocessInFlight = 0, analysesInFlight = 0\<rparr>"

section \<open>Sample inputs\<close>

text \<open>A document whose containers are empty and whose panels are hidden.\<close>

definition blank_page :: ui_state where
  "blank_page =
     \<lparr>currentFilename = None, currentCleanedFilename = None, columns = None,
      loader = DisplayNone, mainContent = DisplayNone, uploadError = [],
      columnSelect = with_options [], plotTypeSelect = with_options [],
      downloadContainer = DisplayNone, downloadLink = ''#'',
      preprocessLoader = DisplayNone, logContainer = [],
      filenameDisplay = None, dataPreview = None, dataDescription = None, dataInfo = None,
      missingContainer = [], outlierContainer = [], normalizeContainer = [],
      analysisLoader = DisplayNone, resultsContainer = DisplayNone,
      plotResult = [], statsResult = [], tracked = True\<rparr>"


definition sample_columns :: ColumnTyping where
  "sample_columns =
     \<lparr>all = Some [''age'', ''city''], numeric = Some [''age''], categorical = Some [''city'']\<rparr>"

definition typed_page :: ui_state where
  "typed_page = blank_page\<lparr>columns := Some sample_columns\<rparr>"

definition sample_upload_data :: upload_data where
  "sample_upload_data =
     \<lparr>u_error = None, u_filename = Some ''data.csv'', u_preview = Some ''<table></table>'',
      u_insights = Some \<lparr>description = Some ''<table></table>'', info = Some ''2 columns''\<rparr>,
      u_columns = Some sample_columns\<rparr>"

definition sample_upload :: "upload_data fetched" where
  "sample_upload = Response True ''200'' ''OK'' (Json sample_upload_data)"

definition sample_cleaned_data :: preprocess_data where
  "sample_cleaned_data =
     \<lparr>p_error = None, p_cleaned_filename = Some ''cleaned_data.csv'',
      p_log = Some [''Filled 1 missing value in age with mean''],
      p_preview = Some ''<table></table>''\<rparr>"

definition sample_cleaned :: "preprocess_data fetched" where
  "sample_cleaned = Response True ''200'' ''OK'' (Json sample_cleaned_data)"


definition fetch_failed :: "preprocess_data fetched" where
  "fetch_failed = FetchRejected (TypeError ''Failed to fetch'')"

text \<open>
  An upload, then two clicks on the preprocess button before the first request has
  settled, then the first response.
\<close>

definition two_clicks :: "event list" where
  "two_clicks =
     [Submit ''data.csv'', UploadSettled sample_upload,
      PreprocessClick, PreprocessClick, PreprocessSettled sample_cleaned]"

definition sample_session :: "event list" where
  "sample_session =
     [Submit ''data.csv'', UploadSettled sample_upload, ChooseMissingValue 0 1, ToggleOutlier 0]"

definition awaiting_preprocess :: world where
  "awaiting_preprocess = step PreprocessClick (loaded blank_page)"

text \<open>Two columns whose names agree up to the first double quote; only the first is numeric.\<close>

definition quoted_name :: string where
  \<open>quoted_name = ''a"b''\<close>

definition quoted_columns :: ColumnTyping where
  "quoted_columns =
     \<lparr>all = Some [quoted_name, ''a''], numeric = Some [quoted_name], categorical = Some [''a'']\<rparr>"



section \<open>Notions used in the statements\<close>

text \<open>The events of the upload listener: the submit and the settling of its request.\<close>

definition upload_event :: "event \<Rightarrow> bool" where
  "upload_event e = (case e of Submit formData \<Rightarrow> True | UploadSettled r \<Rightarrow> True | _ \<Rightarrow> False)"

text \<open>
  A preprocessing request settles with a parsed body whose \<^verbatim>\<open>error\<close> is falsy: the
  server responded without error.
\<close>

definition responds_without_error :: "event \<Rightarrow> bool" where
  "responds_without_error e =
     (case e of
        PreprocessSettled r \<Rightarrow>
          (case r of
             FetchRejected x \<Rightarrow> False
           | Response okay st stText b \<Rightarrow>
               (case b of JsonRejected x \<Rightarrow> False | Json data \<Rightarrow> \<not> truthy (p_error data)))
      | _ \<Rightarrow> False)"


section \<open>The column classifier\<close>








section \<open>Analysis shows all of a result or none of it\<close>




section \<open>Plot types offered for a column\<close>

lemma updatePlotOptions_numeric:
  "columns s = Some c \<Longrightarrow> numeric c = Some nums \<Longrightarrow>
   updatePlotOptions col s =
     (None, s\<lparr>plotTypeSelect := with_options
        (if col \<in> set nums
         then [(''histogram'', ''Histogram''), (''boxplot'', ''Box Plot'')]
         else [(''count'', ''Count Plot'')])\<rparr>)"
  by (simp add: updatePlotOptions_def)

lemma select_value_pick_hist:
  "select_value (pick i (with_options [(''histogram'', ''Histogram''), (''boxplot'', ''Box Plot'')]))
     = (if i = 1 then ''boxplot'' else ''histogram'')"
  by (cases i) (simp_all add: select_value_def pick_def with_options_def)

lemma select_value_pick_count:
  "select_value (pick i (with_options [(''count'', ''Count Plot'')])) = ''count''"
  by (simp add: select_value_def pick_def with_options_def)

text \<open>
  C2. When the \<^verbatim>\<open>columns\<close> structure has a numeric list, \<^verbatim>\<open>updatePlotOptions\<close> does not
  throw and the plot-type select then offers exactly \<open>histogram\<close> and \<open>boxplot\<close> for a
  column in that list and exactly \<open>count\<close> for any other column. Hence, once the change
  listener has run for the selected column, whichever option the user picks, the
  analysis request carries \<open>histogram\<close> or \<open>boxplot\<close> iff the selected column is
  numeric, and \<open>count\<close> iff it is not.
\<close>

theorem plot_choices_follow_column_type:
  assumes "columns s = Some c" and "numeric c = Some nums"
  shows "fst (updatePlotOptions col s) = None
       \<and> map fst (options (plotTypeSelect (snd (updatePlotOptions col s)))) =
           (if col \<in> set nums then [''histogram'', ''boxplot''] else [''count''])
       \<and> (\<exists>pt. snd (analyze_click (choose_plot_type i (column_change s))) =
                  AnalyzeRequest (currentCleanedFilename s) (select_value (columnSelect s)) pt \<and>
                (pt = ''histogram'' \<or> pt = ''boxplot'' \<longleftrightarrow> select_value (columnSelect s) \<in> set nums) \<and>
                (pt = ''count'' \<longleftrightarrow> select_value (columnSelect s) \<notin> set nums))"
proof -
  have 1: "fst (updatePlotOptions col s) = None"
    by (simp add: updatePlotOptions_numeric [OF assms])
  have 2: "map fst (options (plotTypeSelect (snd (updatePlotOptions col s)))) =
           (if col \<in> set nums then [''histogram'', ''boxplot''] else [''count''])"
    by (simp add: updatePlotOptions_numeric [OF assms] with_options_def)
  let ?col = "select_value (columnSelect s)"
  let ?pt = "select_value (plotTypeSelect (choose_plot_type i (column_change s)))"
  have req: "snd (analyze_click (choose_plot_type i (column_change s))) =
      AnalyzeRequest (currentCleanedFilename s) ?col ?pt"
    by (simp add: analyze_click_def Let_def choose_plot_type_def column_change_def
        updatePlotOptions_numeric [OF assms])
  have pt: "?pt = (if ?col \<in> set nums then (if i = 1 then ''boxplot'' else ''histogram'') else ''count'')"
    by (simp add: choose_plot_type_def column_change_def updatePlotOptions_numeric [OF assms]
        select_value_pick_hist select_value_pick_count)
  have 3: "(?pt = ''histogram'' \<or> ?pt = ''boxplot'' \<longleftrightarrow> ?col \<in> set nums) \<and>
           (?pt = ''count'' \<longleftrightarrow> ?col \<notin> set nums)"
    unfolding pt by simp
  from 1 2 req 3 show ?thesis by blast
qed

theorem plot_choices_follow_column_type_witness:
  "columns typed_page = Some sample_columns \<and> numeric sample_columns = Some [''age''] \<and>
   map fst (options (plotTypeSelect (snd (updatePlotOptions ''age'' typed_page)))) =
     [''histogram'', ''boxplot'']"
proof -
  have h1: "columns typed_page = Some sample_columns" by (simp add: typed_page_def)
  have h2: "numeric sample_columns = Some [''age'']" by (simp add: sample_columns_def)
  from plot_choices_follow_column_type [OF h1 h2, of "''age''" 0]
  have "map fst (options (plotTypeSelect (snd (updatePlotOptions ''age'' typed_page)))) =
     (if ''age'' \<in> set [''age''] then [''histogram'', ''boxplot''] else [''count''])"
    by (rule conjunct2 [THEN conjunct1])
  with h1 h2 show ?thesis by simp
qed

text \<open>
  C10. A column name outside the numeric list, whether or not it occurs anywhere in the
  \<^verbatim>\<open>columns\<close> structure, gets the categorical options: \<^verbatim>\<open>updatePlotOptions\<close> returns
  without an exception, the option list is the single \<open>count\<close> option, and that is the
  value of the select.
\<close>

theorem unknown_column_falls_back_to_count:
  assumes "columns s = Some c" and "numeric c = Some nums" and "col \<notin> set nums"
  shows "fst (updatePlotOptions col s) = None
       \<and> options (plotTypeSelect (snd (updatePlotOptions col s))) = [(''count'', ''Count Plot'')]
       \<and> select_value (plotTypeSelect (snd (updatePlotOptions col s))) = ''count''"
  using assms(3)
  by (simp add: updatePlotOptions_numeric [OF assms(1,2)] with_options_def select_value_def)

theorem unknown_column_falls_back_to_count_witness:
  "columns typed_page = Some sample_columns \<and> numeric sample_columns = Some [''age''] \<and>
   ''zip'' \<notin> set [''age''] \<and>
   fst (updatePlotOptions ''zip'' typed_page) = None \<and>
   options (plotTypeSelect (snd (updatePlotOptions ''zip'' typed_page))) = [(''count'', ''Count Plot'')] \<and>
   select_value (plotTypeSelect (snd (updatePlotOptions ''zip'' typed_page))) = ''count''"
proof -
  have h1: "columns typed_page = Some sample_columns" by (simp add: typed_page_def)
  have h2: "numeric sample_columns = Some [''age'']" by (simp add: sample_columns_def)
  have h3: "''zip'' \<notin> set [''age'']" by simp
  from h1 h2 h3 unknown_column_falls_back_to_count [OF h1 h2 h3] show ?thesis
    by (intro conjI) simp_all
qed

section \<open>Preprocessing fails as a whole or not at all\<close>

lemma preprocess_try_thrown:
  "fst (preprocess_try r s) = None \<longleftrightarrow>
     (\<exists>okay st stText data items.
        r = Response okay st stText (Json data) \<and> \<not> truthy (p_error data) \<and> p_log data = Some items)"
  by (auto simp: preprocess_try_def Let_def split: fetched.splits body.splits option.splits)



section \<open>Preprocessing controls\<close>

lemma forEach_col_numeric:
  "numeric cols = Some nums \<Longrightarrow>
   forEach_col cols cs s =
     (None, s\<lparr>missingContainer :=
                 missingContainer s @ map (\<lambda>col. missing_group col (col \<in> set nums)) cs,
               outlierContainer :=
                 outlierContainer s @ map outlier_group (filter (\<lambda>col. col \<in> set nums) cs),
               normalizeContainer :=
                 normalizeContainer s @ map normalize_group (filter (\<lambda>col. col \<in> set nums) cs),
               tracked := (tracked s \<and> list_all reads_back cs)\<rparr>)"
  by (induction cs arbitrary: s) (simp_all add: Let_def conj_assoc)

lemma populate_numeric:
  "numeric c = Some nums \<Longrightarrow> all c = Some cs \<Longrightarrow>
   populatePreprocessingTools (Some c) s =
     (None, s\<lparr>missingContainer := map (\<lambda>col. missing_group col (col \<in> set nums)) cs,
               outlierContainer := map outlier_group (filter (\<lambda>col. col \<in> set nums) cs),
               normalizeContainer := map normalize_group (filter (\<lambda>col. col \<in> set nums) cs),
               tracked := (tracked s \<and> list_all reads_back cs)\<rparr>)"
  by (simp add: populatePreprocessingTools_def forEach_col_numeric)

lemma populate_no_all:
  "all c = None \<Longrightarrow>
   snd (populatePreprocessingTools (Some c) s) =
     s\<lparr>missingContainer := [], outlierContainer := [], normalizeContainer := []\<rparr>"
  by (simp add: populatePreprocessingTools_def)

lemma mean_median_offered:
  "''mean'' \<in> fst ` set (options (og_select (missing_group col b))) \<longleftrightarrow> b"
  "''median'' \<in> fst ` set (options (og_select (missing_group col b))) \<longleftrightarrow> b"
  by (cases b; simp add: missing_group_def with_options_def missing_value_options_def)+


lemma og_column_missing_group: "og_column (missing_group x b) = attribute_text x"
  by (simp add: missing_group_def)


lemma cb_column_outlier_group: "cb_column (outlier_group x) = attribute_text x"
  by (simp add: outlier_group_def)

lemma cb_column_normalize_group: "cb_column (normalize_group x) = attribute_text x"
  by (simp add: normalize_group_def)

lemma attribute_text_quoted_name: "attribute_text quoted_name = ''a''"
  by (simp add: attribute_text_def quoted_name_def)

lemma reads_back_quoted_name: "reads_back quoted_name"
  by (simp add: reads_back_def quoted_name_def)

text \<open>
  C3, as the claim states it, fails. Of the two columns \<^verbatim>\<open>a"b\<close> and \<^verbatim>\<open>a\<close> only the
  first is numeric, yet the controls hold a select with \<^verbatim>\<open>data-column\<close> \<open>a\<close> that
  offers the mean, and an outlier and a normalisation checkbox with \<^verbatim>\<open>data-column\<close>
  \<open>a\<close>: those built for \<^verbatim>\<open>a"b\<close>, whose name the attribute holds up to its double quote.
\<close>

theorem mean_offered_under_non_numeric_name:
  "numeric quoted_columns = Some [quoted_name] \<and> ''a'' \<notin> set [quoted_name] \<and>
   tracked (snd (populatePreprocessingTools (Some quoted_columns) blank_page)) \<and>
   og_column (missingContainer (snd (populatePreprocessingTools (Some quoted_columns) blank_page)) ! 0)
     = ''a'' \<and>
   ''mean'' \<in> fst ` set (options (og_select
      (missingContainer (snd (populatePreprocessingTools (Some quoted_columns) blank_page)) ! 0))) \<and>
   cb_column (outlierContainer (snd (populatePreprocessingTools (Some quoted_columns) blank_page)) ! 0)
     = ''a'' \<and>
   cb_column (normalizeContainer (snd (populatePreprocessingTools (Some quoted_columns) blank_page)) ! 0)
     = ''a''"
proof -
  have n: "numeric quoted_columns = Some [quoted_name]"
    and a: "all quoted_columns = Some [quoted_name, ''a'']"
    by (simp_all add: quoted_columns_def)
  have ne: "''a'' \<noteq> quoted_name" by (simp add: quoted_name_def)
  have ra: "reads_back ''a''" by (simp add: reads_back_def)
  have t: "tracked blank_page" by (simp add: blank_page_def)
  show ?thesis
    using ne
    by (simp add: populate_numeric [OF n a] n t ra reads_back_quoted_name og_column_missing_group
        mean_median_offered cb_column_outlier_group cb_column_normalize_group
        attribute_text_quoted_name)
qed

text \<open>
  C3, amended. A select or checkbox carries as \<^verbatim>\<open>data-column\<close> the name of its column up
  to the first double quote. For every name that is not the \<^verbatim>\<open>data-column\<close> of a
  numeric column, the controls built by \<^verbatim>\<open>populatePreprocessingTools\<close> hold no select
  with that \<^verbatim>\<open>data-column\<close> offering \<open>mean\<close> or \<open>median\<close>, and no outlier or
  normalisation checkbox with it. Where no numeric name holds a double quote these are
  the names outside the numeric list.
\<close>

theorem numeric_only_actions_withheld:
  assumes "numeric c = Some nums" and "col \<notin> attribute_text ` set nums"
    and "tracked (snd (populatePreprocessingTools (Some c) s))"
  shows "(\<forall>g \<in> set (missingContainer (snd (populatePreprocessingTools (Some c) s))).
            og_column g = col \<longrightarrow>
              ''mean'' \<notin> fst ` set (options (og_select g)) \<and>
              ''median'' \<notin> fst ` set (options (og_select g)))
       \<and> col \<notin> cb_column ` set (outlierContainer (snd (populatePreprocessingTools (Some c) s)))
       \<and> col \<notin> cb_column ` set (normalizeContainer (snd (populatePreprocessingTools (Some c) s)))"
proof (cases "all c")
  case None
  then show ?thesis by (simp add: populate_no_all)
next
  case (Some cs)
  let ?s' = "snd (populatePreprocessingTools (Some c) s)"
  have m: "missingContainer ?s' = map (\<lambda>col. missing_group col (col \<in> set nums)) cs"
    and out: "outlierContainer ?s' = map outlier_group (filter (\<lambda>col. col \<in> set nums) cs)"
    and nrm: "normalizeContainer ?s' = map normalize_group (filter (\<lambda>col. col \<in> set nums) cs)"
    by (simp_all add: populate_numeric [OF assms(1) Some])
  have no: "x \<notin> set nums" if "attribute_text x = col" for x
    using that assms(2) by auto
  have "''mean'' \<notin> fst ` set (options (og_select g)) \<and>
        ''median'' \<notin> fst ` set (options (og_select g))"
    if "g \<in> set (missingContainer ?s')" and "og_column g = col" for g
  proof -
    from that(1) obtain x where g: "g = missing_group x (x \<in> set nums)"
      unfolding m by auto
    with that(2) have "attribute_text x = col" by (simp add: og_column_missing_group)
    then have "x \<notin> set nums" by (rule no)
    with g show ?thesis by (simp add: mean_median_offered)
  qed
  moreover have "col \<notin> cb_column ` set (outlierContainer ?s')"
    unfolding out using no by (auto simp: cb_column_outlier_group)
  moreover have "col \<notin> cb_column ` set (normalizeContainer ?s')"
    unfolding nrm using no by (auto simp: cb_column_normalize_group)
  ultimately show ?thesis by blast
qed

theorem numeric_only_actions_withheld_witness:
  "numeric sample_columns = Some [''age''] \<and> ''city'' \<notin> attribute_text ` set [''age''] \<and>
   tracked (snd (populatePreprocessingTools (Some sample_columns) blank_page)) \<and>
   ''city'' \<notin> cb_column ` set (outlierContainer
      (snd (populatePreprocessingTools (Some sample_columns) blank_page)))"
proof -
  have h1: "numeric sample_columns = Some [''age'']" by (simp add: sample_columns_def)
  have a: "all sample_columns = Some [''age'', ''city'']" by (simp add: sample_columns_def)
  have h2: "''city'' \<notin> attribute_text ` set [''age'']" by (simp add: attribute_text_def)
  have h3: "tracked (snd (populatePreprocessingTools (Some sample_columns) blank_page))"
    by (simp add: populate_numeric [OF h1 a] blank_page_def reads_back_def)
  note t = numeric_only_actions_withheld [OF h1 h2 h3]
  show ?thesis by (intro conjI h1 h2 h3 t [THEN conjunct2, THEN conjunct1])
qed



section \<open>Classification partitions the columns\<close>







section \<open>What the listeners leave alone\<close>

lemma forEach_col_frame:
  "forEach_col c cs s = (e, s') \<Longrightarrow>
     currentFilename s' = currentFilename s \<and> currentCleanedFilename s' = currentCleanedFilename s \<and>
     columns s' = columns s \<and> downloadContainer s' = downloadContainer s \<and>
     logContainer s' = logContainer s"
  by (induction cs arbitrary: s) (auto simp: Let_def split: option.splits if_splits)

lemma populate_frame:
  "populatePreprocessingTools c s = (e, s') \<Longrightarrow>
     currentFilename s' = currentFilename s \<and> currentCleanedFilename s' = currentCleanedFilename s \<and>
     columns s' = columns s \<and> downloadContainer s' = downloadContainer s \<and>
     logContainer s' = logContainer s"
  by (auto simp: populatePreprocessingTools_def Let_def split: option.splits dest: forEach_col_frame)

lemma updatePlotOptions_frame:
  "updatePlotOptions col s = (e, s') \<Longrightarrow>
     currentFilename s' = currentFilename s \<and> currentCleanedFilename s' = currentCleanedFilename s \<and>
     columns s' = columns s \<and> downloadContainer s' = downloadContainer s \<and>
     logContainer s' = logContainer s \<and> missingContainer s' = missingContainer s \<and>
     outlierContainer s' = outlierContainer s \<and> normalizeContainer s' = normalizeContainer s \<and>
     columnSelect s' = columnSelect s"
  by (auto simp: updatePlotOptions_def split: option.splits)

lemma displayInitialData_frame:
  "displayInitialData data s = (e, s') \<Longrightarrow>
     currentFilename s' = currentFilename s \<and> currentCleanedFilename s' = currentCleanedFilename s \<and>
     columns s' = columns s \<and> downloadContainer s' = downloadContainer s \<and>
     logContainer s' = logContainer s"
  by (auto simp: displayInitialData_def Let_def split: option.splits prod.splits
      dest!: populate_frame updatePlotOptions_frame)

lemma upload_try_frame:
  "upload_try r s = (e, s') \<Longrightarrow>
     downloadContainer s' = downloadContainer s \<and> logContainer s' = logContainer s"
  by (auto simp: upload_try_def Let_def split: fetched.splits body.splits if_splits prod.splits option.splits
      dest!: displayInitialData_frame)

lemma upload_settled_frame:
  "downloadContainer (upload_settled r s) = downloadContainer s"
  "logContainer (upload_settled r s) = logContainer s"
  by (auto simp: upload_settled_def Let_def split: prod.splits option.splits dest!: upload_try_frame)

lemma upload_try_currentFilename:
  "upload_try r s = (e, s') \<Longrightarrow> upload_try r t = (e', t') \<Longrightarrow>
     currentFilename s = currentFilename t \<Longrightarrow> currentFilename s' = currentFilename t'"
  by (auto simp: upload_try_def Let_def split: fetched.splits body.splits if_splits prod.splits option.splits
      dest!: displayInitialData_frame)

lemma upload_settled_currentFilename:
  "currentFilename s = currentFilename t \<Longrightarrow>
     currentFilename (upload_settled r s) = currentFilename (upload_settled r t)"
  by (auto simp: upload_settled_def Let_def split: prod.splits option.splits
      dest: upload_try_currentFilename)

lemma preprocess_settled_currentFilename:
  "currentFilename (preprocess_settled r s) = currentFilename s"
  by (simp add: preprocess_settled_def preprocess_try_def Let_def
      split: fetched.splits body.splits option.splits)

lemma analyze_settled_frame:
  "currentFilename (analyze_settled r s) = currentFilename s"
  "downloadContainer (analyze_settled r s) = downloadContainer s"
  "missingContainer (analyze_settled r s) = missingContainer s"
  by (simp_all add: analyze_settled_def analyze_try_def Let_def
      split: fetched.splits body.splits option.splits)

lemma column_change_frame:
  "currentFilename (column_change s) = currentFilename s"
  "downloadContainer (column_change s) = downloadContainer s"
  "missingContainer (column_change s) = missingContainer s"
  by (simp_all add: column_change_def updatePlotOptions_def split: option.splits)

lemma choose_column_frame:
  "currentFilename (choose_column i s) = currentFilename s"
  "downloadContainer (choose_column i s) = downloadContainer s"
  "missingContainer (choose_column i s) = missingContainer s"
  by (simp_all add: choose_column_def column_change_frame)


section \<open>The actions sent to the preprocessing endpoint\<close>





















section \<open>Which file each request names\<close>

lemma step_other_currentFilename:
  "\<not> upload_event e \<Longrightarrow>
     currentFilename (ui (step e w)) = currentFilename (ui w) \<and>
     uploadsInFlight (step e w) = uploadsInFlight w"
  by (cases e)
    (simp_all add: upload_event_def preprocess_click_def Let_def preprocess_settled_currentFilename
      analyze_click_def analyze_settled_frame choose_column_frame choose_plot_type_def
      choose_missing_value_def)

lemma step_upload_currentFilename:
  "upload_event e \<Longrightarrow> currentFilename (ui w) = currentFilename (ui v) \<Longrightarrow>
   uploadsInFlight w = uploadsInFlight v \<Longrightarrow>
     currentFilename (ui (step e w)) = currentFilename (ui (step e v)) \<and>
     uploadsInFlight (step e w) = uploadsInFlight (step e v)"
proof (cases e)
  case (Submit formData)
  assume "currentFilename (ui w) = currentFilename (ui v)" "uploadsInFlight w = uploadsInFlight v"
  with Submit show ?thesis by (simp add: upload_submit_def)
next
  case (UploadSettled r)
  assume a: "currentFilename (ui w) = currentFilename (ui v)" "uploadsInFlight w = uploadsInFlight v"
  from a(1) have "currentFilename (upload_settled r (ui w)) = currentFilename (upload_settled r (ui v))"
    by (rule upload_settled_currentFilename)
  with UploadSettled a show ?thesis by simp
qed (simp_all add: upload_event_def)

lemma run_currentFilename:
  "currentFilename (ui w) = currentFilename (ui v) \<Longrightarrow> uploadsInFlight w = uploadsInFlight v \<Longrightarrow>
     currentFilename (ui (run es w)) = currentFilename (ui (run (filter upload_event es) v))"
proof (induction es arbitrary: w v)
  case Nil
  then show ?case by simp
next
  case (Cons e es)
  show ?case
  proof (cases "upload_event e")
    case True
    with Cons.prems have "currentFilename (ui (step e w)) = currentFilename (ui (step e v))"
      and "uploadsInFlight (step e w) = uploadsInFlight (step e v)"
      using step_upload_currentFilename by blast+
    then show ?thesis using True Cons.IH by simp
  next
    case False
    with Cons.prems have "currentFilename (ui (step e w)) = currentFilename (ui v)"
      and "uploadsInFlight (step e w) = uploadsInFlight v"
      using step_other_currentFilename by simp_all
    then show ?thesis using False Cons.IH by simp
  qed
qed

lemma upload_settled_ok_filename:
  assumes "\<not> truthy (u_error d)"
  shows "currentFilename (upload_settled (Response True st stText (Json d)) s) = u_filename d \<and>
         currentCleanedFilename (upload_settled (Response True st stText (Json d)) s) = u_filename d"
proof -
  let ?s1 = "s\<lparr>currentFilename := u_filename d, currentCleanedFilename := u_filename d,
               columns := u_columns d\<rparr>"
  obtain e s2 where d: "displayInitialData d ?s1 = (e, s2)"
    by (cases "displayInitialData d ?s1")
  from displayInitialData_frame [OF d]
  have "currentFilename s2 = u_filename d" "currentCleanedFilename s2 = u_filename d"
    by simp_all
  with assms d show ?thesis
    by (cases e) (simp_all add: upload_settled_def upload_try_def Let_def)
qed

lemma preprocess_settled_ok_cleaned:
  "\<not> truthy (p_error data) \<Longrightarrow>
     currentCleanedFilename (preprocess_settled (Response okay st stText (Json data)) s) =
       p_cleaned_filename data"
  by (cases "p_log data") (simp_all add: preprocess_settled_def preprocess_try_def Let_def)

text \<open>
  C8. A click on the preprocess button sends \<^verbatim>\<open>currentFilename\<close>. Along any run of
  events that variable is what it would be had only the upload events happened: no
  click, no preprocessing or analysis response and no choice of the user assigns it,
  and a successful upload response sets it, and \<^verbatim>\<open>currentCleanedFilename\<close>, to the
  uploaded file's name. A click on the analyze button sends
  \<^verbatim>\<open>currentCleanedFilename\<close>, which a preprocessing response without error sets to the
  returned \<^verbatim>\<open>cleaned_filename\<close>.
\<close>

theorem preprocessing_sends_uploaded_filename:
  "sent (step PreprocessClick w) =
     sent w @ [PreprocessRequest (currentFilename (ui w)) (collect_actions (ui w))]
   \<and> currentFilename (ui (run es w)) = currentFilename (ui (run (filter upload_event es) w))
   \<and> (0 < uploadsInFlight w \<and> \<not> truthy (u_error d) \<longrightarrow>
        currentFilename (ui (step (UploadSettled (Response True st stText (Json d))) w)) = u_filename d \<and>
        currentCleanedFilename (ui (step (UploadSettled (Response True st stText (Json d))) w)) = u_filename d)
   \<and> sent (step AnalyzeClick w) =
       sent w @ [AnalyzeRequest (currentCleanedFilename (ui w)) (select_value (columnSelect (ui w)))
                   (select_value (plotTypeSelect (ui w)))]
   \<and> (0 < preprocessInFlight w \<and> \<not> truthy (p_error data) \<longrightarrow>
        currentCleanedFilename (ui (step (PreprocessSettled (Response okay st' stText' (Json data))) w)) =
          p_cleaned_filename data)"
proof -
  have 1: "sent (step PreprocessClick w) =
     sent w @ [PreprocessRequest (currentFilename (ui w)) (collect_actions (ui w))]"
    by (simp add: preprocess_click_def Let_def collect_actions_def)
  have 2: "currentFilename (ui (run es w)) = currentFilename (ui (run (filter upload_event es) w))"
    by (rule run_currentFilename) simp_all
  have 3: "0 < uploadsInFlight w \<and> \<not> truthy (u_error d) \<longrightarrow>
        currentFilename (ui (step (UploadSettled (Response True st stText (Json d))) w)) = u_filename d \<and>
        currentCleanedFilename (ui (step (UploadSettled (Response True st stText (Json d))) w)) = u_filename d"
    using upload_settled_ok_filename [of d st stText "ui w"] by simp
  have 4: "sent (step AnalyzeClick w) =
       sent w @ [AnalyzeRequest (currentCleanedFilename (ui w)) (select_value (columnSelect (ui w)))
                   (select_value (plotTypeSelect (ui w)))]"
    by (simp add: analyze_click_def Let_def)
  have 5: "0 < preprocessInFlight w \<and> \<not> truthy (p_error data) \<longrightarrow>
        currentCleanedFilename (ui (step (PreprocessSettled (Response okay st' stText' (Json data))) w)) =
          p_cleaned_filename data"
    using preprocess_settled_ok_cleaned [of data okay st' stText' "ui w"] by simp
  show ?thesis by (intro conjI 1 2 3 4 5)
qed

theorem preprocessing_sends_uploaded_filename_witness:
  "0 < preprocessInFlight awaiting_preprocess \<and>
   \<not> truthy (p_error sample_cleaned_data) \<and>
   currentCleanedFilename (ui (step (PreprocessSettled sample_cleaned) awaiting_preprocess)) =
     Some ''cleaned_data.csv'' \<and>
   currentFilename (ui (run two_clicks (loaded blank_page))) = Some ''data.csv''"
proof -
  note t = preprocessing_sends_uploaded_filename
    [of awaiting_preprocess two_clicks sample_upload_data "''200''" "''OK''"
      sample_cleaned_data True "''200''" "''OK''"]
  have h: "0 < preprocessInFlight awaiting_preprocess \<and> \<not> truthy (p_error sample_cleaned_data)"
    by (simp add: awaiting_preprocess_def sample_cleaned_data_def truthy_def)
  note t [THEN conjunct2, THEN conjunct2, THEN conjunct2, THEN conjunct2, THEN mp, OF h]
  then have 1: "currentCleanedFilename (ui (step (PreprocessSettled sample_cleaned) awaiting_preprocess)) =
     Some ''cleaned_data.csv''"
    by (simp add: sample_cleaned_def sample_cleaned_data_def)
  have 2: "currentFilename (ui (run two_clicks (loaded blank_page))) = Some ''data.csv''"
    by (simp add: two_clicks_def sample_session_def loaded_def blank_page_def sample_upload_def sample_upload_data_def
      sample_cleaned_def sample_cleaned_data_def sample_columns_def upload_submit_def upload_settled_def
      upload_try_def displayInitialData_def populatePreprocessingTools_def updatePlotOptions_def
      preprocess_click_def preprocess_settled_def preprocess_try_def truthy_def str_def Let_def
      showLoader_def)
  from h have h1: "0 < preprocessInFlight awaiting_preprocess"
    and h2: "\<not> truthy (p_error sample_cleaned_data)"
    by simp_all
  show ?thesis by (intro conjI h1 h2 1 2)
qed

section \<open>When the download link is shown\<close>

lemma preprocess_settled_failed_download:
  "fst (preprocess_try r s) \<noteq> None \<Longrightarrow>
     downloadContainer (preprocess_settled r s) = downloadContainer s"
  by (cases r; simp add: preprocess_settled_def preprocess_try_def Let_def
      split: body.splits option.splits if_splits)

lemma preprocess_settled_ok_download:
  "\<not> truthy (p_error data) \<Longrightarrow> p_log data = Some items \<Longrightarrow>
     downloadContainer (preprocess_settled (Response okay st stText (Json data)) s) = Block \<and>
     downloadLink (preprocess_settled (Response okay st stText (Json data)) s) =
       ''/download/'' @ str (p_cleaned_filename data)"
  by (simp add: preprocess_settled_def preprocess_try_def)

lemma preprocess_settled_download:
  assumes "downloadContainer (preprocess_settled r s) \<noteq> downloadContainer s"
  shows "\<exists>okay st stText data items.
       r = Response okay st stText (Json data) \<and> \<not> truthy (p_error data) \<and>
       p_log data = Some items \<and>
       downloadContainer (preprocess_settled r s) = Block \<and>
       downloadLink (preprocess_settled r s) = ''/download/'' @ str (p_cleaned_filename data)"
proof -
  from assms have "fst (preprocess_try r s) = None"
    using preprocess_settled_failed_download by fastforce
  then obtain okay st stText data items
    where r: "r = Response okay st stText (Json data)" "\<not> truthy (p_error data)"
      "p_log data = Some items"
    unfolding preprocess_try_thrown by auto
  from preprocess_settled_ok_download [OF r(2,3)] r show ?thesis
    by (intro exI [of _ okay] exI [of _ st] exI [of _ stText] exI [of _ data] exI [of _ items]) simp
qed

lemma step_download:
  "downloadContainer (ui w) = DisplayNone \<Longrightarrow> downloadContainer (ui (step e w)) \<noteq> DisplayNone \<Longrightarrow>
     \<exists>okay st stText data items.
       e = PreprocessSettled (Response okay st stText (Json data)) \<and> \<not> truthy (p_error data) \<and>
       p_log data = Some items \<and>
       downloadContainer (ui (step e w)) = Block \<and>
       downloadLink (ui (step e w)) = ''/download/'' @ str (p_cleaned_filename data)"
proof (cases e)
  case (PreprocessSettled r)
  assume a: "downloadContainer (ui w) = DisplayNone" "downloadContainer (ui (step e w)) \<noteq> DisplayNone"
  with PreprocessSettled have inflight: "preprocessInFlight w \<noteq> 0"
    by (auto split: if_splits)
  with PreprocessSettled a have "downloadContainer (preprocess_settled r (ui w)) \<noteq> downloadContainer (ui w)"
    by simp
  from preprocess_settled_download [OF this] PreprocessSettled inflight show ?thesis
    by simp
qed (auto simp: upload_submit_def upload_settled_frame preprocess_click_def Let_def
      analyze_click_def analyze_settled_frame choose_column_frame choose_plot_type_def
      choose_missing_value_def split: if_splits)

lemma step_keeps_hidden:
  assumes "\<not> responds_without_error e" and "downloadContainer (ui w) = DisplayNone"
  shows "downloadContainer (ui (step e w)) = DisplayNone"
proof (rule ccontr)
  assume "downloadContainer (ui (step e w)) \<noteq> DisplayNone"
  from step_download [OF assms(2) this] obtain okay st stText data
    where "e = PreprocessSettled (Response okay st stText (Json data))" "\<not> truthy (p_error data)"
    by auto
  then have "responds_without_error e"
    by (simp add: responds_without_error_def)
  with assms(1) show False by simp
qed

lemma run_keeps_hidden:
  "list_all (\<lambda>e. \<not> responds_without_error e) es \<Longrightarrow> downloadContainer (ui w) = DisplayNone \<Longrightarrow>
     downloadContainer (ui (run es w)) = DisplayNone"
  by (induction es arbitrary: w) (simp_all add: step_keeps_hidden)

lemma click_hides:
  "downloadContainer (ui (step PreprocessClick w)) = DisplayNone"
  "logContainer (ui (step PreprocessClick w)) = []"
  "downloadContainer (ui (step (Submit formData) w)) = DisplayNone"
  "logContainer (ui (step (Submit formData) w)) = logContainer (ui w)"
  by (simp_all add: preprocess_click_def Let_def upload_submit_def)

text \<open>
  C9, as the claim states it, fails: after an upload and two clicks on the preprocess
  button, the response to the first request shows the download container while the
  second request is still in flight.
\<close>

theorem download_shown_while_in_flight:
  "downloadContainer (ui (run two_clicks (loaded blank_page))) = Block \<and>
   preprocessInFlight (run two_clicks (loaded blank_page)) = 1"
  by (simp add: two_clicks_def sample_session_def loaded_def blank_page_def sample_upload_def sample_upload_data_def
      sample_cleaned_def sample_cleaned_data_def sample_columns_def upload_submit_def upload_settled_def
      upload_try_def displayInitialData_def populatePreprocessingTools_def updatePlotOptions_def
      preprocess_click_def preprocess_settled_def preprocess_try_def truthy_def str_def Let_def
      showLoader_def)

text \<open>
  C9, amended. An upload submit and a preprocess click each hide the download
  container before their request is sent; the click also empties the log, the submit
  leaves the log as it is. From then on the container stays hidden as long as no
  preprocessing request settles with a response without error. A step that shows the
  hidden container is the settling of a preprocessing request with a body that has no
  error and has a log, and it sets the link to \<open>/download/\<close> followed by the returned
  \<^verbatim>\<open>cleaned_filename\<close>.
\<close>

theorem download_hidden_until_success:
  "downloadContainer (ui (step (Submit formData) w)) = DisplayNone
   \<and> logContainer (ui (step (Submit formData) w)) = logContainer (ui w)
   \<and> downloadContainer (ui (step PreprocessClick w)) = DisplayNone
   \<and> logContainer (ui (step PreprocessClick w)) = []
   \<and> (list_all (\<lambda>e. \<not> responds_without_error e) es \<longrightarrow>
        downloadContainer (ui (run es (step PreprocessClick w))) = DisplayNone \<and>
        downloadContainer (ui (run es (step (Submit formData) w))) = DisplayNone)
   \<and> (downloadContainer (ui w) = DisplayNone \<and> downloadContainer (ui (step e w)) \<noteq> DisplayNone \<longrightarrow>
        (\<exists>okay st stText data items.
           e = PreprocessSettled (Response okay st stText (Json data)) \<and> \<not> truthy (p_error data) \<and>
           p_log data = Some items \<and>
           downloadContainer (ui (step e w)) = Block \<and>
           downloadLink (ui (step e w)) = ''/download/'' @ str (p_cleaned_filename data)))"
proof -
  have 5: "list_all (\<lambda>e. \<not> responds_without_error e) es \<longrightarrow>
        downloadContainer (ui (run es (step PreprocessClick w))) = DisplayNone \<and>
        downloadContainer (ui (run es (step (Submit formData) w))) = DisplayNone"
  proof
    assume a: "list_all (\<lambda>e. \<not> responds_without_error e) es"
    from run_keeps_hidden [OF a click_hides(1)] run_keeps_hidden [OF a click_hides(3)]
    show "downloadContainer (ui (run es (step PreprocessClick w))) = DisplayNone \<and>
        downloadContainer (ui (run es (step (Submit formData) w))) = DisplayNone"
      by (rule conjI)
  qed
  have 6: "downloadContainer (ui w) = DisplayNone \<and> downloadContainer (ui (step e w)) \<noteq> DisplayNone \<longrightarrow>
        (\<exists>okay st stText data items.
           e = PreprocessSettled (Response okay st stText (Json data)) \<and> \<not> truthy (p_error data) \<and>
           p_log data = Some items \<and>
           downloadContainer (ui (step e w)) = Block \<and>
           downloadLink (ui (step e w)) = ''/download/'' @ str (p_cleaned_filename data))"
  proof
    assume "downloadContainer (ui w) = DisplayNone \<and> downloadContainer (ui (step e w)) \<noteq> DisplayNone"
    then have "downloadContainer (ui w) = DisplayNone" "downloadContainer (ui (step e w)) \<noteq> DisplayNone"
      by simp_all
    then show "\<exists>okay st stText data items.
           e = PreprocessSettled (Response okay st stText (Json data)) \<and> \<not> truthy (p_error data) \<and>
           p_log data = Some items \<and>
           downloadContainer (ui (step e w)) = Block \<and>
           downloadLink (ui (step e w)) = ''/download/'' @ str (p_cleaned_filename data)"
      by (rule step_download)
  qed
  have c: "downloadContainer (ui (step (Submit formData) w)) = DisplayNone"
    "logContainer (ui (step (Submit formData) w)) = logContainer (ui w)"
    "downloadContainer (ui (step PreprocessClick w)) = DisplayNone"
    "logContainer (ui (step PreprocessClick w)) = []"
    by (rule click_hides)+
  show ?thesis by (intro conjI c 5 6)
qed

theorem download_hidden_until_success_witness:
  "list_all (\<lambda>e. \<not> responds_without_error e) [AnalyzeClick, PreprocessSettled fetch_failed] \<and>
   downloadContainer (ui (run [AnalyzeClick, PreprocessSettled fetch_failed]
     (step PreprocessClick (loaded blank_page)))) = DisplayNone \<and>
   downloadContainer (ui awaiting_preprocess) = DisplayNone \<and>
   downloadContainer (ui (step (PreprocessSettled sample_cleaned) awaiting_preprocess)) \<noteq> DisplayNone \<and>
   downloadLink (ui (step (PreprocessSettled sample_cleaned) awaiting_preprocess)) =
     ''/download/cleaned_data.csv''"
proof -
  note t = download_hidden_until_success
    [of "''data.csv''" "loaded blank_page" "[AnalyzeClick, PreprocessSettled fetch_failed]"
      "PreprocessSettled sample_cleaned"]
  have h: "list_all (\<lambda>e. \<not> responds_without_error e) [AnalyzeClick, PreprocessSettled fetch_failed]"
    by (simp add: responds_without_error_def fetch_failed_def)
  note t [THEN conjunct2, THEN conjunct2, THEN conjunct2, THEN conjunct2, THEN conjunct1, THEN mp,
    OF h, THEN conjunct1]
  then have 1: "downloadContainer (ui (run [AnalyzeClick, PreprocessSettled fetch_failed]
     (step PreprocessClick (loaded blank_page)))) = DisplayNone" .
  have 2: "downloadContainer (ui awaiting_preprocess) = DisplayNone"
    by (simp add: awaiting_preprocess_def preprocess_click_def Let_def)
  have 3: "downloadContainer (ui (step (PreprocessSettled sample_cleaned) awaiting_preprocess))
      \<noteq> DisplayNone"
    by (simp add: awaiting_preprocess_def sample_cleaned_def sample_cleaned_data_def
      preprocess_click_def preprocess_settled_def preprocess_try_def truthy_def Let_def)
  have 4: "downloadLink (ui (step (PreprocessSettled sample_cleaned) awaiting_preprocess)) =
     ''/download/cleaned_data.csv''"
    by (simp add: awaiting_preprocess_def sample_cleaned_def sample_cleaned_data_def
      preprocess_click_def preprocess_settled_def preprocess_try_def truthy_def str_def Let_def)
  show ?thesis by (intro conjI h 1 2 3 4)
qed

end
